theory Spec2Isabelle
  imports Complex_Main "HOL-Library.Log_Nat"
begin

section \<open>The OpenRazer troubleshooter of Polychromatic\<close>

text \<open>
  This theory embeds \<^verbatim>\<open>pylib/troubleshoot/openrazer.py\<close>: the function
  \<^verbatim>\<open>troubleshoot(_)\<close> with its two nested helpers
  \<^verbatim>\<open>_get_filtered_lsusb_list\<close> and \<^verbatim>\<open>_is_version_newer_then\<close>.

  Conventions of the embedding.
  \<^item> A Python \<^verbatim>\<open>str\<close> is a \<^typ>\<open>string\<close>; a \<^typ>\<open>char\<close> stands for a code
    point below 256. The text operations below are those of Python on such text, with
    one exception: \<^verbatim>\<open>str.upper\<close> leaves the two letters whose capitals lie beyond
    255 (code points 181 and 255) as they are.
  \<^item> An \<^verbatim>\<open>int\<close> is an \<^typ>\<open>int\<close>. The limit of 4300 digits that Python 3.11 puts
    on \<^verbatim>\<open>int(s)\<close> and \<^verbatim>\<open>str(n)\<close>, and that can be switched off, is not
    modelled: numbers of any length are read and printed.
  \<^item> An exception is a value of \<open>exn\<close>; every constructor stands for a subclass of
    Python's \<^verbatim>\<open>Exception\<close>. A computation that may raise returns \<open>exn + 'a\<close>.
  \<^item> Everything the function reads from the machine is a field of the record \<open>env\<close>;
    every such read is logged as an \<open>event\<close>, in the order in which the code performs it.
    Writes to standard output (\<^verbatim>\<open>print\<close>) are not part of the returned value
    and are left out.
\<close>

subsection \<open>Exceptions\<close>

datatype exn =
    KeyError
  | IndexError
  | ValueError
  | AttributeError
  | FileNotFoundError
  | OtherException string

definition ebind :: "exn + 'a \<Rightarrow> ('a \<Rightarrow> exn + 'b) \<Rightarrow> exn + 'b" where
  "ebind m f = (case m of Inl e \<Rightarrow> Inl e | Inr x \<Rightarrow> f x)"

subsection \<open>Python's text and list primitives\<close>

text \<open>\<^verbatim>\<open>xs[i]\<close>: a negative index counts from the end; out of range raises.\<close>

definition item :: "'a list \<Rightarrow> int \<Rightarrow> exn + 'a" where
  "item xs i =
     (let k = (if i < 0 then i + int (length xs) else i)
      in if k < 0 \<or> int (length xs) \<le> k then Inl IndexError else Inr (xs ! nat k))"

text \<open>\<^verbatim>\<open>s.split(sep)\<close> for a separator of one character: never an empty list.\<close>

fun split :: "char \<Rightarrow> string \<Rightarrow> string list" where
  "split sep [] = [[]]"
| "split sep (c # cs) =
     (if c = sep then [] # split sep cs
      else (case split sep cs of
              [] \<Rightarrow> [[c]]
            | w # ws \<Rightarrow> (c # w) # ws))"

text \<open>
  \<^verbatim>\<open>s.strip()\<close>. The code points below 256 that it removes at both ends are those
  of \<^verbatim>\<open>str.isspace\<close>: 9 to 13, 28 to 32, 133 and 160.
\<close>

definition isspace :: "char \<Rightarrow> bool" where
  "isspace c =
     (c \<in> set [CHR 0x09, CHR 0x0A, CHR 0x0B, CHR 0x0C, CHR 0x0D, CHR 0x1C, CHR 0x1D,
                CHR 0x1E, CHR 0x1F, CHR 0x20, CHR 0x85, CHR 0xA0])"

definition strip :: "string \<Rightarrow> string" where
  "strip s = rev (dropWhile isspace (rev (dropWhile isspace s)))"

text \<open>The position of the first \<open>c\<close> in \<open>s\<close>, or the length of \<open>s\<close>.\<close>

definition index_of :: "char \<Rightarrow> string \<Rightarrow> nat" where
  "index_of c s = length (takeWhile (\<lambda>d. d \<noteq> c) s)"

text \<open>
  \<^verbatim>\<open>s.upper()\<close>. Below 256 the letters with a capital are \<^verbatim>\<open>a\<close> to
  \<^verbatim>\<open>z\<close> and the code points 224 to 254 without 247, whose capitals lie 32 below;
  the sharp s (223) becomes \<^verbatim>\<open>SS\<close>.
\<close>

definition small_letters :: string where
  "small_letters =
     ''abcdefghijklmnopqrstuvwxyz''
     @ [CHR 0xE0, CHR 0xE1, CHR 0xE2, CHR 0xE3, CHR 0xE4, CHR 0xE5, CHR 0xE6, CHR 0xE7,
        CHR 0xE8, CHR 0xE9, CHR 0xEA, CHR 0xEB, CHR 0xEC, CHR 0xED, CHR 0xEE, CHR 0xEF,
        CHR 0xF0, CHR 0xF1, CHR 0xF2, CHR 0xF3, CHR 0xF4, CHR 0xF5, CHR 0xF6,
        CHR 0xF8, CHR 0xF9, CHR 0xFA, CHR 0xFB, CHR 0xFC, CHR 0xFD, CHR 0xFE]"

definition capital_letters :: string where
  "capital_letters =
     ''ABCDEFGHIJKLMNOPQRSTUVWXYZ''
     @ [CHR 0xC0, CHR 0xC1, CHR 0xC2, CHR 0xC3, CHR 0xC4, CHR 0xC5, CHR 0xC6, CHR 0xC7,
        CHR 0xC8, CHR 0xC9, CHR 0xCA, CHR 0xCB, CHR 0xCC, CHR 0xCD, CHR 0xCE, CHR 0xCF,
        CHR 0xD0, CHR 0xD1, CHR 0xD2, CHR 0xD3, CHR 0xD4, CHR 0xD5, CHR 0xD6,
        CHR 0xD8, CHR 0xD9, CHR 0xDA, CHR 0xDB, CHR 0xDC, CHR 0xDD, CHR 0xDE]"

definition upper_char :: "char \<Rightarrow> string" where
  "upper_char c =
     (if c \<in> set small_letters then [capital_letters ! index_of c small_letters]
      else if c = CHR 0xDF then ''SS''
      else [c])"

definition upper :: "string \<Rightarrow> string" where
  "upper s = concat (map upper_char s)"

text \<open>\<^verbatim>\<open>s.find(sub)\<close>: the lowest index at which \<open>sub\<close> starts, or \<open>-1\<close>.\<close>

fun find_from :: "nat \<Rightarrow> string \<Rightarrow> string \<Rightarrow> int" where
  "find_from i [] sub = (if sub = [] then int i else - 1)"
| "find_from i (c # cs) sub =
     (if take (length sub) (c # cs) = sub then int i else find_from (Suc i) cs sub)"

definition find_str :: "string \<Rightarrow> string \<Rightarrow> int" where
  "find_str s sub = find_from 0 s sub"

text \<open>\<^verbatim>\<open>s.replace(old, new)\<close>, every occurrence from the left.\<close>

function replace :: "string \<Rightarrow> string \<Rightarrow> string \<Rightarrow> string" where
  "replace old new [] = (if old = [] then new else [])"
| "replace old new (c # cs) =
     (if old = [] then new @ c # replace old new cs
      else if take (length old) (c # cs) = old
           then new @ replace old new (drop (length old) (c # cs))
           else c # replace old new cs)"
  by pat_completeness auto
termination
  by (relation "measure (\<lambda>(old, new, s). length s)") auto

text \<open>\<^verbatim>\<open>s.rjust(width, fill)\<close>.\<close>

definition rjust :: "nat \<Rightarrow> char \<Rightarrow> string \<Rightarrow> string" where
  "rjust width fill s = replicate (width - length s) fill @ s"

text \<open>
  \<^verbatim>\<open>str(n)\<close> and \<^verbatim>\<open>hex(n)\<close> of an integer, from the digits of a number
  that is not negative, most significant first.
\<close>

function decimal :: "int \<Rightarrow> string" where
  "decimal n =
     (if n < 10 then [''0123456789'' ! nat n]
      else decimal (n div 10) @ [''0123456789'' ! nat (n mod 10)])"
  by pat_completeness auto
termination
  by (relation "measure nat") auto

function hexadecimal :: "int \<Rightarrow> string" where
  "hexadecimal n =
     (if n < 16 then [''0123456789abcdef'' ! nat n]
      else hexadecimal (n div 16) @ [''0123456789abcdef'' ! nat (n mod 16)])"
  by pat_completeness auto
termination
  by (relation "measure nat") auto

declare decimal.simps [simp del] hexadecimal.simps [simp del]

definition str_int :: "int \<Rightarrow> string" where
  "str_int n = (if n < 0 then ''-'' @ decimal (- n) else decimal n)"

definition hex :: "int \<Rightarrow> string" where
  "hex n = (if n < 0 then ''-0x'' @ hexadecimal (- n) else ''0x'' @ hexadecimal n)"

text \<open>
  \<^verbatim>\<open>posixpath.join(a, b)\<close>: an absolute \<open>b\<close> replaces \<open>a\<close>; otherwise one
  \<^verbatim>\<open>/\<close> separates them unless \<open>a\<close> is empty or ends with one.
\<close>

definition path_join :: "string \<Rightarrow> string \<Rightarrow> string" where
  "path_join a b =
     (if take 1 b = ''/'' then b
      else if a = [] \<or> last a = CHR ''/'' then a @ b
      else a @ ''/'' @ b)"

subsection \<open>\<^verbatim>\<open>int(s)\<close> and \<^verbatim>\<open>float(s)\<close>\<close>

text \<open>
  Both skip blanks at the two ends, take an optional sign and read decimal digits in which
  single underscores may separate digits. \<open>digitpart\<close> is that last shape. The
  blanks that the two parsers skip are fewer than the whitespace of \<^verbatim>\<open>str.strip\<close>:
  below 256 they are the code points 9 to 13, 32, 133 and 160, and not 28 to 31.
\<close>

definition isblank :: "char \<Rightarrow> bool" where
  "isblank c =
     (c \<in> set [CHR 0x09, CHR 0x0A, CHR 0x0B, CHR 0x0C, CHR 0x0D, CHR 0x20, CHR 0x85,
                CHR 0xA0])"

definition skip_blanks :: "string \<Rightarrow> string" where
  "skip_blanks s = rev (dropWhile isblank (rev (dropWhile isblank s)))"

definition isdigit :: "char \<Rightarrow> bool" where
  "isdigit c = (c \<in> set ''0123456789'')"

fun digitpart :: "string \<Rightarrow> bool" where
  "digitpart [] = False"
| "digitpart [c] = isdigit c"
| "digitpart (c # d # cs) =
     (isdigit c \<and> (if d = CHR ''_'' then digitpart cs else digitpart (d # cs)))"

definition digits_value :: "string \<Rightarrow> int" where
  "digits_value s =
     foldl (\<lambda>n c. 10 * n + int (index_of c ''0123456789'')) 0 (filter isdigit s)"

definition split_sign :: "string \<Rightarrow> bool \<times> string" where
  "split_sign s =
     (case s of
        [] \<Rightarrow> (False, [])
      | c # cs \<Rightarrow> if c = CHR ''-'' then (True, cs)
                  else if c = CHR ''+'' then (False, cs)
                  else (False, s))"

definition py_int :: "string \<Rightarrow> exn + int" where
  "py_int s =
     (let (neg, body) = split_sign (skip_blanks s)
      in if digitpart body
         then Inr (if neg then - digits_value body else digits_value body)
         else Inl ValueError)"

text \<open>
  A Python \<^verbatim>\<open>float\<close> is an IEEE binary64 number; \<^verbatim>\<open>float(s)\<close> returns the
  double nearest to the decimal value of \<open>s\<close>, ties going to the even significand, and
  infinity beyond the largest double. A finite double is represented by its exact
  rational value (so \<open>-0.0\<close> and \<open>0.0\<close>, which compare equal, are one value).
\<close>

datatype pyfloat = Finite rat | PosInf | NegInf | NaN

definition pow2 :: "int \<Rightarrow> rat" where
  "pow2 e = (if 0 \<le> e then 2 ^ nat e else 1 / 2 ^ nat (- e))"

definition pow10 :: "int \<Rightarrow> rat" where
  "pow10 e = (if 0 \<le> e then 10 ^ nat e else 1 / 10 ^ nat (- e))"

text \<open>The exponent \<open>e\<close> with \<open>2 ^ e \<le> q < 2 ^ (e + 1)\<close>, for positive \<open>q\<close>.\<close>

definition floor_log2 :: "rat \<Rightarrow> int" where
  "floor_log2 q =
     (let (a, b) = quotient_of q; e = bitlen a - bitlen b
      in if pow2 e \<le> q then e else e - 1)"

definition round_half_even :: "rat \<Rightarrow> int" where
  "round_half_even q =
     (let f = \<lfloor>q\<rfloor>; d = q - of_int f
      in if d < 1 / 2 then f
         else if 1 / 2 < d then f + 1
         else if even f then f else f + 1)"

text \<open>
  With \<open>e\<close> the exponent of \<open>\<bar>q\<bar>\<close> (not below that of the smallest normal double)
  the doubles near \<open>\<bar>q\<bar>\<close> are the multiples of \<open>2 ^ (e - 52)\<close>, and the rounded
  significand \<open>r\<close> is at most \<open>2 ^ 53\<close>. The result leaves the range of the doubles,
  that is \<open>r * 2 ^ (e - 52)\<close> reaches \<open>2 ^ 1024\<close>, exactly when \<open>e\<close> is at least 1024
  or \<open>e\<close> is 1023 and \<open>r\<close> is \<open>2 ^ 53\<close>.
\<close>

definition binary64 :: "rat \<Rightarrow> pyfloat" where
  "binary64 q =
     (if q = 0 then Finite 0
      else let a = \<bar>q\<bar>;
               e = max (floor_log2 a) (- 1022);
               ulp = pow2 (e - 52);
               r = round_half_even (a / ulp);
               v = of_int r * ulp
           in if 1024 \<le> e \<or> (e = 1023 \<and> r = 2 ^ 53)
              then (if q < 0 then NegInf else PosInf)
              else Finite (if q < 0 then - v else v))"

text \<open>\<^verbatim>\<open>x > y\<close> on floats: false whenever one side is not a number.\<close>

fun float_gt :: "pyfloat \<Rightarrow> pyfloat \<Rightarrow> bool" where
  "float_gt NaN y = False"
| "float_gt x NaN = False"
| "float_gt NegInf y = False"
| "float_gt PosInf y = (y \<noteq> PosInf)"
| "float_gt (Finite a) (Finite b) = (b < a)"
| "float_gt (Finite a) NegInf = True"
| "float_gt (Finite a) PosInf = False"

definition lower_char :: "char \<Rightarrow> char" where
  "lower_char c =
     (if c \<in> set ''ABCDEFGHIJKLMNOPQRSTUVWXYZ''
      then ''abcdefghijklmnopqrstuvwxyz'' ! index_of c ''ABCDEFGHIJKLMNOPQRSTUVWXYZ''
      else c)"

definition isdigit_us :: "char \<Rightarrow> bool" where
  "isdigit_us c = (isdigit c \<or> c = CHR ''_'')"

definition parse_exponent :: "string \<Rightarrow> int option" where
  "parse_exponent s =
     (case s of
        [] \<Rightarrow> Some 0
      | c # cs \<Rightarrow>
          if c = CHR ''e'' \<or> c = CHR ''E''
          then (let (neg, ds) = split_sign cs
                in if digitpart ds
                   then Some (if neg then - digits_value ds else digits_value ds)
                   else None)
          else None)"

text \<open>
  The accepted shapes, between the blanks and after the sign: \<^verbatim>\<open>inf\<close>, \<^verbatim>\<open>infinity\<close>,
  \<^verbatim>\<open>nan\<close> in any case, or digits with an optional point (at least one digit before
  or after it) and an optional exponent.
\<close>

definition py_float :: "string \<Rightarrow> exn + pyfloat" where
  "py_float s =
     (let (neg, body) = split_sign (skip_blanks s); name = map lower_char body
      in if name = ''inf'' \<or> name = ''infinity'' then Inr (if neg then NegInf else PosInf)
         else if name = ''nan'' then Inr NaN
         else
           let ip = takeWhile isdigit_us body;
               r1 = dropWhile isdigit_us body;
               dot = (take 1 r1 = ''.'');
               fp = (if dot then takeWhile isdigit_us (tl r1) else []);
               r2 = (if dot then dropWhile isdigit_us (tl r1) else r1)
           in if (ip = [] \<and> fp = []) \<or> \<not> (ip = [] \<or> digitpart ip)
                   \<or> \<not> (fp = [] \<or> digitpart fp)
              then Inl ValueError
              else (case parse_exponent r2 of
                      None \<Rightarrow> Inl ValueError
                    | Some x \<Rightarrow>
                        let m = of_int (digits_value (ip @ fp))
                                  * pow10 (x - int (length (filter isdigit fp)))
                        in Inr (binary64 (if neg then - m else m))))"

subsection \<open>The machine the function runs on\<close>

record uname_result =
  sysname :: string
  release :: string
  machine :: string

text \<open>
  A device of the daemon's device manager: \<^verbatim>\<open>device._vid\<close> and
  \<^verbatim>\<open>device._pid\<close>, \<open>None\<close> where reading the attribute or formatting it with
  \<^verbatim>\<open>hex\<close> raises.
\<close>

record device =
  dev_vid :: "int option"
  dev_pid :: "int option"

text \<open>
  The optional client library \<^verbatim>\<open>openrazer.client\<close>: its \<^verbatim>\<open>__version__\<close> and
  what \<^verbatim>\<open>DeviceManager().devices\<close> yields.
\<close>

record client =
  version :: string
  devices :: "exn + device list"

record response =
  status_code :: int
  body :: string

record env =
  os_uname :: uname_result
  os_environ :: "string \<Rightarrow> string option"
  os_getuid :: int
  shutil_which :: "string \<Rightarrow> string option"
  path_exists :: "string \<Rightarrow> bool"
  open_read :: "string \<Rightarrow> exn + string"
  popen :: "string list \<Rightarrow> exn + string \<times> int"
  glob_glob :: "string \<Rightarrow> string list"
  expanduser :: "string \<Rightarrow> string"
  rclient :: "client option"
  requests_get :: "string \<Rightarrow> exn + response"

text \<open>
  \<open>open_read p\<close> is the text read from the file \<open>p\<close> once opened, or the exception
  raised by opening or reading it; \<open>popen argv\<close> is the decoded standard output and the
  exit code of the subprocess, or the exception raised by starting it or decoding its
  output; \<open>rclient\<close> is \<open>None\<close> when the import at the top of the module failed
  (\<^verbatim>\<open>PYTHON_LIB_PRESENT = False\<close>).
\<close>

datatype event =
    Uname
  | Environ string
  | Getuid
  | Which string
  | Exists string
  | Open string
  | Popen "string list"
  | Glob string
  | ExpandUser string
  | DeviceManager
  | HttpGet string

subsection \<open>Computations that read the machine and may raise\<close>

type_synonym 'a io = "event list \<Rightarrow> (exn + 'a) \<times> event list"

definition io_ret :: "'a \<Rightarrow> 'a io" where
  "io_ret x = (\<lambda>l. (Inr x, l))"

definition lift :: "exn + 'a \<Rightarrow> 'a io" where
  "lift r = (\<lambda>l. (r, l))"

definition perform :: "event \<Rightarrow> exn + 'a \<Rightarrow> 'a io" where
  "perform ev r = (\<lambda>l. (r, l @ [ev]))"

definition io_bind :: "'a io \<Rightarrow> ('a \<Rightarrow> 'b io) \<Rightarrow> 'b io" where
  "io_bind m f =
     (\<lambda>l. case m l of
            (Inl e, l') \<Rightarrow> (Inl e, l')
          | (Inr x, l') \<Rightarrow> f x l')"

text \<open>\<^verbatim>\<open>try: m except <handled>: h\<close>\<close>

definition try_except :: "'a io \<Rightarrow> (exn \<Rightarrow> bool) \<Rightarrow> 'a io \<Rightarrow> 'a io" where
  "try_except m handled h =
     (\<lambda>l. case m l of
            (Inl e, l') \<Rightarrow> if handled e then h l' else (Inl e, l')
          | (Inr x, l') \<Rightarrow> (Inr x, l'))"

definition uname_io :: "env \<Rightarrow> uname_result io" where
  "uname_io env = perform Uname (Inr (os_uname env))"

definition environ_io :: "env \<Rightarrow> string \<Rightarrow> string io" where
  "environ_io env k =
     perform (Environ k) (case os_environ env k of None \<Rightarrow> Inl KeyError | Some v \<Rightarrow> Inr v)"

definition getuid_io :: "env \<Rightarrow> int io" where
  "getuid_io env = perform Getuid (Inr (os_getuid env))"

definition which_io :: "env \<Rightarrow> string \<Rightarrow> string option io" where
  "which_io env cmd = perform (Which cmd) (Inr (shutil_which env cmd))"

definition exists_io :: "env \<Rightarrow> string \<Rightarrow> bool io" where
  "exists_io env p = perform (Exists p) (Inr (path_exists env p))"

definition open_io :: "env \<Rightarrow> string \<Rightarrow> string io" where
  "open_io env p = perform (Open p) (open_read env p)"

definition popen_io :: "env \<Rightarrow> string list \<Rightarrow> (string \<times> int) io" where
  "popen_io env argv = perform (Popen argv) (popen env argv)"

definition glob_io :: "env \<Rightarrow> string \<Rightarrow> string list io" where
  "glob_io env pat = perform (Glob pat) (Inr (glob_glob env pat))"

definition expanduser_io :: "env \<Rightarrow> string \<Rightarrow> string io" where
  "expanduser_io env p = perform (ExpandUser p) (Inr (expanduser env p))"

definition devices_io :: "client \<Rightarrow> device list io" where
  "devices_io lib = perform DeviceManager (devices lib)"

definition get_io :: "env \<Rightarrow> string \<Rightarrow> response io" where
  "get_io env url = perform (HttpGet url) (requests_get env url)"

text \<open>\<^verbatim>\<open>f.readline()\<close> on a freshly opened file: the first line with its newline.\<close>

definition readline :: "string \<Rightarrow> string" where
  "readline s =
     takeWhile (\<lambda>c. c \<noteq> CHR 0x0A) s @ (if CHR 0x0A \<in> set s then [CHR 0x0A] else [])"

subsection \<open>The report\<close>

text \<open>
  One entry of \<^verbatim>\<open>results\<close>: the dictionary with the keys \<^verbatim>\<open>test_name\<close>,
  \<^verbatim>\<open>suggestions\<close> and \<^verbatim>\<open>passed\<close> (\<^verbatim>\<open>True\<close>, \<^verbatim>\<open>False\<close> or
  \<^verbatim>\<open>None\<close>).
\<close>

record check_result =
  test_name :: string
  suggestions :: "string list"
  passed :: "bool option"

text \<open>What \<^verbatim>\<open>troubleshoot\<close> returns: \<^verbatim>\<open>None\<close>, the list, or a string.\<close>

datatype outcome =
    NotApplicable
  | Report "check_result list"
  | Fatal string

subsection \<open>\<^verbatim>\<open>_is_version_newer_then\<close> (lines 282 to 293)\<close>

definition is_version_newer_then :: "string \<Rightarrow> string \<Rightarrow> exn + bool" where
  "is_version_newer_then verA0 verB0 =
     (let verA = split CHR ''.'' verA0;
          verB = split CHR ''.'' verB0
      in ebind (item verA 0) (\<lambda>a0.
         ebind (py_int a0) (\<lambda>majorA.
         ebind (item verB 0) (\<lambda>b0.
         ebind (py_int b0) (\<lambda>majorB.
         ebind (item verA 1) (\<lambda>a1.
         ebind (item verA 2) (\<lambda>a2.
         ebind (py_float (a1 @ ''.'' @ a2)) (\<lambda>restA.
         ebind (item verB 1) (\<lambda>b1.
         ebind (item verB 2) (\<lambda>b2.
         ebind (py_float (b1 @ ''.'' @ b2)) (\<lambda>restB.
         Inr (majorA > majorB \<or> float_gt restA restB))))))))))))"

subsection \<open>\<^verbatim>\<open>_get_filtered_lsusb_list\<close> (lines 204 to 253)\<close>

text \<open>Line 226 and 227: the sixth field of a line, cut at the colons, in upper case.\<close>

definition parse_vidpid :: "string \<Rightarrow> exn + string \<times> string" where
  "parse_vidpid usb =
     ebind (item (split CHR '' '' usb) 5) (\<lambda>field.
       let vidpid = split CHR '':'' field
       in ebind (item vidpid 0) (\<lambda>v.
          ebind (item vidpid 1) (\<lambda>p.
          Inr (upper v, upper p))))"

text \<open>
  The loop of lines 223 to 229 over the lines of the output. Its handler catches
  \<^verbatim>\<open>AttributeError\<close> and nothing else.
\<close>

fun scan_lsusb :: "string list \<Rightarrow> (string \<times> string) list \<Rightarrow> exn + (string \<times> string) list" where
  "scan_lsusb [] all_usb_ids = Inr all_usb_ids"
| "scan_lsusb (usb # rest) all_usb_ids =
     (if length usb > 0
      then (case parse_vidpid usb of
              Inr vidpid \<Rightarrow> scan_lsusb rest (all_usb_ids @ [vidpid])
            | Inl e \<Rightarrow> if e = AttributeError then scan_lsusb rest all_usb_ids else Inl e)
      else scan_lsusb rest all_usb_ids)"

text \<open>Lines 235 and 236: \<^verbatim>\<open>str(hex(n))[2:].upper().rjust(4, '0')\<close>.\<close>

definition hex_id :: "int \<Rightarrow> string" where
  "hex_id n = rjust 4 CHR ''0'' (upper (drop 2 (hex n)))"

text \<open>The loop of lines 233 to 241 over the devices of the daemon.\<close>

fun registered_ids :: "device list \<Rightarrow> (string \<times> string) list \<Rightarrow> (string \<times> string) list" where
  "registered_ids [] reg_ids = reg_ids"
| "registered_ids (d # rest) reg_ids =
     (case dev_vid d of
        None \<Rightarrow> registered_ids rest reg_ids
      | Some v \<Rightarrow>
          (case dev_pid d of
             None \<Rightarrow> registered_ids rest reg_ids
           | Some p \<Rightarrow> registered_ids rest (reg_ids @ [(hex_id v, hex_id p)])))"

text \<open>The loop of lines 244 to 251.\<close>

fun unregistered :: "(string \<times> string) list \<Rightarrow> (string \<times> string) list \<Rightarrow>
    (string \<times> string) list \<Rightarrow> (string \<times> string) list" where
  "unregistered [] reg_ids unreg_ids = unreg_ids"
| "unregistered (usb # rest) reg_ids unreg_ids =
     (if fst usb \<noteq> ''1532'' then unregistered rest reg_ids unreg_ids
      else if usb \<in> set reg_ids then unregistered rest reg_ids unreg_ids
      else unregistered rest reg_ids (unreg_ids @ [usb]))"

text \<open>The whole helper; \<open>None\<close> is its \<^verbatim>\<open>return None\<close> of line 221.\<close>

definition get_filtered_lsusb_list :: "env \<Rightarrow> client \<Rightarrow> (string \<times> string) list option io" where
  "get_filtered_lsusb_list env lib =
     io_bind
       (try_except
          (io_bind (popen_io env [''lsusb'']) (\<lambda>(out, code). io_ret (Some out)))
          (\<lambda>e. e = FileNotFoundError)
          (io_ret None))
       (\<lambda>found.
          case found of
            None \<Rightarrow> io_ret None
          | Some lsusb \<Rightarrow>
              io_bind (lift (scan_lsusb (split CHR 0x0A lsusb) [])) (\<lambda>all_usb_ids.
              io_bind (devices_io lib) (\<lambda>devs.
              io_ret (Some (unregistered all_usb_ids (registered_ids devs []) [])))))"

subsection \<open>\<^verbatim>\<open>troubleshoot\<close>, check by check\<close>

text \<open>
  The parameter \<open>tr\<close> is the translation function \<^verbatim>\<open>_\<close> that the caller passes.
  Each definition below is one block of the body, named after its comment in the source;
  \<open>results\<close> is the list built so far.
\<close>

text \<open>Lines 45 to 48.\<close>

definition daemon_pid_path :: "env \<Rightarrow> string io" where
  "daemon_pid_path env =
     try_except
       (io_bind (environ_io env ''XDG_RUNTIME_DIR'') (\<lambda>dir.
        io_ret (path_join dir ''openrazer-daemon.pid'')))
       (\<lambda>e. e = KeyError)
       (io_bind (getuid_io env) (\<lambda>uid.
        io_ret (path_join (path_join ''/run/user/'' (str_int uid)) ''openrazer-daemon.pid'')))"

text \<open>Lines 51 to 57.\<close>

definition check_daemon_installed ::
  "(string \<Rightarrow> string) \<Rightarrow> env \<Rightarrow> check_result list \<Rightarrow> check_result list io" where
  "check_daemon_installed tr env results =
     io_bind (which_io env ''openrazer-daemon'') (\<lambda>found.
     io_ret (results @
       [\<lparr>test_name = tr ''Daemon is installed'',
         suggestions = [tr ''Install the 'openrazer-meta' package for your distribution.''],
         passed = Some (found \<noteq> None)\<rparr>]))"

text \<open>Lines 60 to 74.\<close>

definition daemon_is_running :: "env \<Rightarrow> string \<Rightarrow> bool io" where
  "daemon_is_running env daemon_pid_file =
     io_bind (exists_io env daemon_pid_file) (\<lambda>present.
     if present
     then io_bind (open_io env daemon_pid_file) (\<lambda>f.
          io_bind (lift (py_int (readline f))) (\<lambda>daemon_pid.
          io_bind (exists_io env (''/proc/'' @ str_int daemon_pid)) (\<lambda>alive.
          io_ret alive)))
     else io_ret False)"

definition check_daemon_running ::
  "(string \<Rightarrow> string) \<Rightarrow> env \<Rightarrow> string \<Rightarrow> check_result list \<Rightarrow> check_result list io" where
  "check_daemon_running tr env daemon_pid_file results =
     io_bind (daemon_is_running env daemon_pid_file) (\<lambda>daemon_running.
     io_ret (results @
       [\<lparr>test_name = tr ''Daemon is running'',
         suggestions =
           [tr ''Start the daemon from the terminal. Run this command and look for errors:'',
            ''$ openrazer-daemon -Fv''],
         passed = Some daemon_running\<rparr>]))"

text \<open>Lines 77 to 84.\<close>

definition check_python_lib ::
  "(string \<Rightarrow> string) \<Rightarrow> env \<Rightarrow> check_result list \<Rightarrow> check_result list io" where
  "check_python_lib tr env results =
     io_ret (results @
       [\<lparr>test_name = tr ''Python library is installed'',
         suggestions =
           [tr ''Install the 'python3-openrazer' package for your distribution.'',
            tr ''Check the PYTHONPATH environment variable is correct.''],
         passed = Some (rclient env \<noteq> None)\<rparr>])"

text \<open>
  Lines 87 to 116. The first component of the result is \<^verbatim>\<open>dkms_installed_built\<close>,
  which stays \<^verbatim>\<open>None\<close> without the library.
\<close>

definition check_dkms ::
  "(string \<Rightarrow> string) \<Rightarrow> env \<Rightarrow> uname_result \<Rightarrow> check_result list \<Rightarrow>
     (bool option \<times> check_result list) io" where
  "check_dkms tr env un results =
     (case rclient env of
        None \<Rightarrow> io_ret (None, results)
      | Some lib \<Rightarrow>
          let dkms_version = version lib;
              expected_dkms_src = ''/var/lib/dkms/openrazer-driver/'' @ dkms_version;
              expected_dkms_build =
                ''/var/lib/dkms/openrazer-driver/kernel-'' @ release un @ ''-'' @ machine un
          in io_bind (exists_io env expected_dkms_src) (\<lambda>dkms_installed_src.
             io_bind (exists_io env expected_dkms_build) (\<lambda>dkms_installed_built.
             io_ret (Some dkms_installed_built, results @
               [\<lparr>test_name = tr ''DKMS sources are installed'',
                 suggestions =
                   [tr ''Install the 'openrazer-driver-dkms' package for your distribution.''],
                 passed = Some dkms_installed_src\<rparr>,
                \<lparr>test_name = tr ''DKMS module has been built for this kernel version'',
                 suggestions =
                   [tr ''Ensure you have the correct Linux kernel headers package installed for your distribution.'',
                    tr ''Your distro's package system might not have rebuilt the DKMS module (this can happen with kernel or OpenRazer updates). Try running:'',
                    replace ''x.x.x'' dkms_version
                      ''$ sudo dkms install -m openrazer-driver/x.x.x''],
                 passed = Some dkms_installed_built\<rparr>]))))"

text \<open>Lines 119 to 130.\<close>

definition check_modprobe ::
  "(string \<Rightarrow> string) \<Rightarrow> env \<Rightarrow> check_result list \<Rightarrow> check_result list io" where
  "check_modprobe tr env results =
     io_bind (popen_io env [''modprobe'', ''-n'', ''razerkbd'']) (\<lambda>(output, code).
     io_ret (results @
       [\<lparr>test_name = tr ''DKMS module can be probed'',
         suggestions = [tr ''For full error details, run:'', ''$ sudo modprobe razerkbd''],
         passed = Some (code = 0)\<rparr>]))"

text \<open>Lines 133 to 143.\<close>

definition check_lsmod ::
  "(string \<Rightarrow> string) \<Rightarrow> env \<Rightarrow> check_result list \<Rightarrow> check_result list io" where
  "check_lsmod tr env results =
     io_bind (popen_io env [''lsmod'']) (\<lambda>(output, code).
     io_ret (results @
       [\<lparr>test_name = tr ''DKMS module is currently loaded'',
         suggestions = [tr ''For full error details, run:'', ''$ sudo modprobe razerkbd''],
         passed = Some (find_str output ''razer'' \<noteq> - 1)\<rparr>]))"

text \<open>Lines 146 to 174.\<close>

definition sb_reason :: "(string \<Rightarrow> string) \<Rightarrow> string" where
  "sb_reason tr =
     tr ''Secure Boot prevents the driver from loading, as OpenRazer's kernel modules built by DKMS are usually unsigned.''"

definition check_secure_boot ::
  "(string \<Rightarrow> string) \<Rightarrow> env \<Rightarrow> check_result list \<Rightarrow> check_result list io" where
  "check_secure_boot tr env results =
     io_bind (exists_io env ''/sys/firmware/efi'') (\<lambda>efi.
     if efi
     then io_bind (glob_io env ''/sys/firmware/efi/efivars/SecureBoot*'') (\<lambda>sb_sysfile.
          if length sb_sysfile > 0
          then io_bind (lift (item sb_sysfile 0)) (\<lambda>sysfile.
               io_bind (popen_io env [''od'', ''--address-radix=n'', ''--format=u1'', sysfile])
                 (\<lambda>(output, code).
               io_bind (lift (item (split CHR '' '' output) (- 1))) (\<lambda>field.
               io_bind (lift (py_int (strip field))) (\<lambda>status.
               io_ret (results @
                 [\<lparr>test_name = tr ''Check Secure Boot (EFI) status'',
                   suggestions =
                     [tr ''Secure boot is enabled. Turn it off in the system's EFI settings or sign the modules yourself.'',
                      sb_reason tr],
                   passed = Some (status = 0)\<rparr>])))))
          else io_ret (results @
                 [\<lparr>test_name = tr ''Check Secure Boot (EFI) status'',
                   suggestions =
                     [tr ''Unable to automatically check. If it's enabled, turn it off in the system's EFI settings or sign the modules yourself.'',
                      sb_reason tr],
                   passed = None\<rparr>]))
     else io_ret results)"

text \<open>Lines 177 to 186.\<close>

definition check_plugdev ::
  "(string \<Rightarrow> string) \<Rightarrow> env \<Rightarrow> check_result list \<Rightarrow> check_result list io" where
  "check_plugdev tr env results =
     io_bind (popen_io env [''groups'']) (\<lambda>(groups, code).
     io_ret (results @
       [\<lparr>test_name = tr ''User account has been added to the 'plugdev' group'',
         suggestions =
           [tr ''Run this command, log out, then log back in to the computer:'',
            ''$ sudo gpasswd -a $USER plugdev'',
            tr ''If you've recently installed, you may need to restart the computer.''],
         passed = Some (find_str groups ''plugdev'' \<noteq> - 1)\<rparr>]))"

text \<open>
  Lines 189 to 201. \<^verbatim>\<open>"".join(f.readlines())\<close> is the text of the file.
\<close>

definition check_log ::
  "(string \<Rightarrow> string) \<Rightarrow> env \<Rightarrow> check_result list \<Rightarrow> check_result list io" where
  "check_log tr env results =
     io_bind (expanduser_io env ''~'') (\<lambda>home.
     let log_path = path_join home ''.local/share/openrazer/logs/razer.log''
     in io_bind (exists_io env log_path) (\<lambda>present.
        if present
        then io_bind (open_io env log_path) (\<lambda>log.
             io_ret (results @
               [\<lparr>test_name = tr ''Check OpenRazer log for plugdev permission errors'',
                 suggestions =
                   [tr ''Restarting (or replugging) usually fixes the problem.'',
                    tr ''To reset this error, clear the log:'' @ '' '' @ log_path],
                 passed = Some (find_str log ''Could not access /sys/'' = - 1)\<rparr>]))
        else io_ret results))"

text \<open>Lines 255 to 265.\<close>

definition check_unsupported ::
  "(string \<Rightarrow> string) \<Rightarrow> env \<Rightarrow> bool option \<Rightarrow> check_result list \<Rightarrow> check_result list io" where
  "check_unsupported tr env dkms_installed_built results =
     (case rclient env of
        None \<Rightarrow> io_ret results
      | Some lib \<Rightarrow>
          if dkms_installed_built = Some True
          then io_bind (get_filtered_lsusb_list env lib) (\<lambda>unsupported_devices.
               case unsupported_devices of
                 None \<Rightarrow> io_ret results
               | Some unsupported \<Rightarrow>
                   io_ret (results @
                     [\<lparr>test_name = tr ''Check for unsupported hardware'',
                       suggestions =
                         [replace ''x.x.x'' (version lib)
                            (tr ''Ensure the latest version is installed (your version is x.x.x).''),
                          tr ''Check the OpenRazer repository to confirm your device is listed as supported.''],
                       passed = Some (length unsupported = 0)\<rparr>]))
          else io_ret results)"

text \<open>Lines 267 to 315.\<close>

definition remote_get_url :: string where
  "remote_get_url = ''https://openrazer.github.io/api/latest_version.txt''"

text \<open>Lines 271 to 280: the value of \<^verbatim>\<open>remote_version\<close> after the \<^verbatim>\<open>try\<close>.\<close>

definition fetch_remote_version :: "env \<Rightarrow> string option io" where
  "fetch_remote_version env =
     try_except
       (io_bind (get_io env remote_get_url) (\<lambda>request.
        io_ret (if status_code request = 200
                    \<and> length (split CHR ''.'' (strip (body request))) = 3
                then Some (strip (body request)) else None)))
       (\<lambda>e. True)
       (io_ret None)"

definition version_unknown :: "(string \<Rightarrow> string) \<Rightarrow> check_result" where
  "version_unknown tr =
     \<lparr>test_name = tr ''OpenRazer is the latest version'',
      suggestions =
        [tr ''Unable to retrieve this data from OpenRazer's website.'',
         tr ''Check the OpenRazer website to confirm your device is listed as supported.'',
         tr ''If you're checking the GitHub repository, check the 'stable' branch.''],
      passed = None\<rparr>"

definition check_version ::
  "(string \<Rightarrow> string) \<Rightarrow> env \<Rightarrow> check_result list \<Rightarrow> check_result list io" where
  "check_version tr env results =
     (case rclient env of
        None \<Rightarrow> io_ret results
      | Some lib \<Rightarrow>
          let local_version = version lib
          in io_bind (fetch_remote_version env) (\<lambda>remote_version.
             case remote_version of
               None \<Rightarrow> io_ret (results @ [version_unknown tr])
             | Some remote \<Rightarrow>
                 if remote \<noteq> []
                 then io_bind (lift (is_version_newer_then remote local_version)) (\<lambda>newer.
                      io_ret (results @
                        [\<lparr>test_name = tr ''OpenRazer is the latest version'',
                          suggestions =
                            [tr ''There is a new version of OpenRazer available.'',
                             tr ''New versions add support for more devices and address device-specific issues.'',
                             replace ''0.0.0'' local_version (tr ''Your version: 0.0.0''),
                             replace ''0.0.0'' remote (tr ''Latest version: 0.0.0'')],
                          passed = Some (\<not> newer)\<rparr>]))
                 else io_ret (results @ [version_unknown tr])))"

subsection \<open>\<^verbatim>\<open>troubleshoot\<close> (lines 32 to 322)\<close>

text \<open>
  The body of the \<^verbatim>\<open>try\<close> statement; \<open>None\<close> is the \<^verbatim>\<open>return None\<close> of
  line 42, \<open>Some results\<close> is falling through to line 322.
\<close>

definition troubleshoot_body ::
  "(string \<Rightarrow> string) \<Rightarrow> env \<Rightarrow> check_result list option io" where
  "troubleshoot_body tr env =
     io_bind (uname_io env) (\<lambda>un.
     if sysname un \<noteq> ''Linux'' then io_ret None
     else
       io_bind (daemon_pid_path env) (\<lambda>daemon_pid_file.
       io_bind (check_daemon_installed tr env []) (\<lambda>results.
       io_bind (check_daemon_running tr env daemon_pid_file results) (\<lambda>results.
       io_bind (check_python_lib tr env results) (\<lambda>results.
       io_bind (check_dkms tr env un results) (\<lambda>(dkms_installed_built, results).
       io_bind (check_modprobe tr env results) (\<lambda>results.
       io_bind (check_lsmod tr env results) (\<lambda>results.
       io_bind (check_secure_boot tr env results) (\<lambda>results.
       io_bind (check_plugdev tr env results) (\<lambda>results.
       io_bind (check_log tr env results) (\<lambda>results.
       io_bind (check_unsupported tr env dkms_installed_built results) (\<lambda>results.
       io_bind (check_version tr env results) (\<lambda>results.
       io_ret (Some results))))))))))))))"

text \<open>
  The function itself. The handler of line 317 returns
  \<^verbatim>\<open>common.get_exception_as_string(e)\<close>; that function lives in another module
  of the package and is the parameter \<open>get_exception_as_string\<close> here.
\<close>

definition troubleshoot ::
  "(exn \<Rightarrow> string) \<Rightarrow> (string \<Rightarrow> string) \<Rightarrow> env \<Rightarrow> event list \<Rightarrow> outcome \<times> event list" where
  "troubleshoot get_exception_as_string tr env l =
     (case troubleshoot_body tr env l of
        (Inl e, l') \<Rightarrow> (Fatal (get_exception_as_string e), l')
      | (Inr None, l') \<Rightarrow> (NotApplicable, l')
      | (Inr (Some results), l') \<Rightarrow> (Report results, l'))"

subsection \<open>Notions used to state the results\<close>

text \<open>A computation that raises from every log.\<close>

definition raises :: "'a io \<Rightarrow> bool" where
  "raises m = (\<forall>l. \<exists>e l'. m l = (Inl e, l'))"

text \<open>The two paths that the body builds from the machine before testing them.\<close>

definition log_path :: "env \<Rightarrow> string" where
  "log_path env = path_join (expanduser env ''~'') ''.local/share/openrazer/logs/razer.log''"

definition dkms_build_path :: "env \<Rightarrow> string" where
  "dkms_build_path env =
     ''/var/lib/dkms/openrazer-driver/kernel-'' @ release (os_uname env) @ ''-''
       @ machine (os_uname env)"

text \<open>
  An event is \<open>answered\<close> when the machine's reply to it is not an exception, or is one
  that the code catches where it performs the read: the missing key of line 47, the
  \<^verbatim>\<open>FileNotFoundError\<close> of line 219 and anything raised by the request of line 272.
\<close>

fun answered :: "env \<Rightarrow> event \<Rightarrow> bool" where
  "answered env (Open p) = (\<not> isl (open_read env p))"
| "answered env (Popen argv) =
     (\<not> isl (popen env argv) \<or> (argv = [''lsusb''] \<and> popen env argv = Inl FileNotFoundError))"
| "answered env DeviceManager =
     (case rclient env of None \<Rightarrow> True | Some lib \<Rightarrow> \<not> isl (devices lib))"
| "answered env ev = True"

text \<open>
  The names of a complete report on a machine, in order: every check whose condition
  (library present, firmware directory present, log present, driver built and
  \<^verbatim>\<open>lsusb\<close> found) holds there.
\<close>

definition report_names :: "(string \<Rightarrow> string) \<Rightarrow> env \<Rightarrow> string list" where
  "report_names tr env =
     [tr ''Daemon is installed'', tr ''Daemon is running'', tr ''Python library is installed'']
     @ (case rclient env of
          None \<Rightarrow> []
        | Some lib \<Rightarrow>
            [tr ''DKMS sources are installed'',
             tr ''DKMS module has been built for this kernel version''])
     @ [tr ''DKMS module can be probed'', tr ''DKMS module is currently loaded'']
     @ (if path_exists env ''/sys/firmware/efi''
        then [tr ''Check Secure Boot (EFI) status''] else [])
     @ [tr ''User account has been added to the 'plugdev' group'']
     @ (if path_exists env (log_path env)
        then [tr ''Check OpenRazer log for plugdev permission errors''] else [])
     @ (case rclient env of
          None \<Rightarrow> []
        | Some lib \<Rightarrow>
            if path_exists env (dkms_build_path env)
                 \<and> popen env [''lsusb''] \<noteq> Inl FileNotFoundError
            then [tr ''Check for unsupported hardware''] else [])
     @ (case rclient env of
          None \<Rightarrow> []
        | Some lib \<Rightarrow> [tr ''OpenRazer is the latest version''])"

subsection \<open>Sample machines\<close>

text \<open>A rendering of exceptions to stand for \<^verbatim>\<open>get_exception_as_string\<close>.\<close>

fun exn_name :: "exn \<Rightarrow> string" where
  "exn_name KeyError = ''KeyError''"
| "exn_name IndexError = ''IndexError''"
| "exn_name ValueError = ''ValueError''"
| "exn_name AttributeError = ''AttributeError''"
| "exn_name FileNotFoundError = ''FileNotFoundError''"
| "exn_name (OtherException n) = n"

definition sample_lib :: client where
  "sample_lib = \<lparr>version = ''3.0.1'', devices = Inr [\<lparr>dev_vid = Some 5426, dev_pid = Some 515\<rparr>]\<rparr>"

text \<open>
  A Linux machine on which nothing optional is there: no runtime directory variable, no
  file, no daemon, no client library; the three tools that are always run answer.
\<close>

definition bare_linux :: env where
  "bare_linux =
     \<lparr>os_uname = \<lparr>sysname = ''Linux'', release = ''5.4.0'', machine = ''x86_64''\<rparr>,
      os_environ = (\<lambda>k. None),
      os_getuid = 1000,
      shutil_which = (\<lambda>cmd. None),
      path_exists = (\<lambda>p. False),
      open_read = (\<lambda>p. Inl FileNotFoundError),
      popen = (\<lambda>argv. if argv = [''lsusb''] then Inl FileNotFoundError else Inr ([], 0)),
      glob_glob = (\<lambda>pat. []),
      expanduser = (\<lambda>p. ''/home/user''),
      rclient = None,
      requests_get = (\<lambda>url. Inl (OtherException ''ConnectionError''))\<rparr>"

definition darwin :: env where
  "darwin = bare_linux\<lparr>os_uname := \<lparr>sysname = ''Darwin'', release = ''20.1.0'', machine = ''x86_64''\<rparr>\<rparr>"

definition with_lib :: env where
  "with_lib = bare_linux\<lparr>rclient := Some sample_lib\<rparr>"

definition remote_abc :: env where
  "remote_abc = with_lib\<lparr>requests_get := (\<lambda>url. Inr \<lparr>status_code = 200, body = ''a.b.c''\<rparr>)\<rparr>"

text \<open>
  A machine with the library, the driver built, and two devices plugged in: one of the
  vendor 1532, which the daemon knows, and one of another vendor.
\<close>

definition usb_output :: string where
  "usb_output =
     ''Bus 001 Device 002: ID 1532:0203 Razer USA, Ltd'' @ [CHR 0x0A]
       @ ''Bus 001 Device 003: ID 046d:c52b Logitech, Inc.'' @ [CHR 0x0A]"

definition usb_machine :: env where
  "usb_machine =
     with_lib\<lparr>path_exists := (\<lambda>p. p = ''/var/lib/dkms/openrazer-driver/kernel-5.4.0-x86_64''),
       popen := (\<lambda>argv. if argv = [''lsusb''] then Inr (usb_output, 0) else Inr ([], 0))\<rparr>"

text \<open>The same machine when a line of the listing has fewer than six fields.\<close>

definition short_line :: env where
  "short_line =
     usb_machine\<lparr>popen := (\<lambda>argv.
       if argv = [''lsusb'']
       then Inr (''Bus 001 Device 002: ID 1532:0203 Razer USA, Ltd'' @ [CHR 0x0A]
                   @ ''Bus 001'' @ [CHR 0x0A], 0)
       else Inr ([], 0))\<rparr>"

text \<open>A machine whose daemon PID file does not start with a number.\<close>

definition bad_pid :: env where
  "bad_pid =
     bare_linux\<lparr>path_exists := (\<lambda>p. p = ''/run/user/1000/openrazer-daemon.pid''),
       open_read := (\<lambda>p. Inr (''abc'' @ [CHR 0x0A]))\<rparr>"


text \<open>A machine with the firmware directory but without the Secure Boot variable.\<close>

definition no_secure_boot_variable :: env where
  "no_secure_boot_variable = bare_linux\<lparr>path_exists := (\<lambda>p. p = ''/sys/firmware/efi'')\<rparr>"

section \<open>Results\<close>

subsection \<open>Running a computation\<close>

lemma io_bind_ret [simp]: "io_bind (io_ret x) f l = f x l"
  by (simp add: io_bind_def io_ret_def)

lemma io_bind_perform_Inr [simp]: "io_bind (perform ev (Inr x)) f l = f x (l @ [ev])"
  by (simp add: io_bind_def perform_def)

lemma io_bind_perform_Inl [simp]: "io_bind (perform ev (Inl e)) f l = (Inl e, l @ [ev])"
  by (simp add: io_bind_def perform_def)

lemma io_bind_lift_Inr [simp]: "io_bind (lift (Inr x)) f l = f x l"
  by (simp add: io_bind_def lift_def)

lemma io_bind_lift_Inl [simp]: "io_bind (lift (Inl e)) f l = (Inl e, l)"
  by (simp add: io_bind_def lift_def)

lemma io_bind_raises: "m l = (Inl e, l') \<Longrightarrow> io_bind m f l = (Inl e, l')"
  by (simp add: io_bind_def)

lemma raises_bind_first: "raises m \<Longrightarrow> raises (io_bind m f)"
  unfolding raises_def by (metis io_bind_raises)

lemma raises_bind:
  assumes "\<And>x. raises (f x)"
  shows "raises (io_bind m f)"
  unfolding raises_def
proof
  fix l
  obtain r l1 where m: "m l = (r, l1)" by (cases "m l")
  show "\<exists>e l'. io_bind m f l = (Inl e, l')"
  proof (cases r)
    case (Inl e)
    with m show ?thesis by (simp add: io_bind_def)
  next
    case (Inr x)
    with m have "io_bind m f l = f x l1" by (simp add: io_bind_def)
    with assms [of x] show ?thesis by (simp add: raises_def)
  qed
qed

lemma raises_bind_perform: "raises (f x) \<Longrightarrow> raises (io_bind (perform ev (Inr x)) f)"
  by (simp add: raises_def)

lemma raises_case_prod: "(\<And>a b. raises (f a b)) \<Longrightarrow> raises (case p of (a, b) \<Rightarrow> f a b)"
  by (cases p) simp

subsection \<open>The platform guard\<close>

text \<open>
  Claim C3. On a machine whose platform name is not \<^verbatim>\<open>Linux\<close> the function
  returns \<^verbatim>\<open>None\<close> (not applicable) at once: the only thing it has read from the
  machine is \<^verbatim>\<open>os.uname()\<close>. So no check has produced a result, no subprocess has
  been started and no file has been looked at or opened.
\<close>

theorem platform_guard:
  "sysname (os_uname env) \<noteq> ''Linux'' \<Longrightarrow>
     troubleshoot get_exception_as_string tr env l = (NotApplicable, l @ [Uname])"
  by (simp add: troubleshoot_def troubleshoot_body_def uname_io_def io_ret_def)

theorem platform_guard_witness:
  "sysname (os_uname darwin) \<noteq> ''Linux''
     \<and> troubleshoot exn_name id darwin [] = (NotApplicable, [Uname])"
  using platform_guard [of darwin exn_name id "[]"]
  by (simp add: darwin_def)

subsection \<open>A remote version that is not numeric\<close>

lemma split_abc: "split CHR ''.'' ''a.b.c'' = [''a'', ''b'', ''c'']"
  by code_simp

lemma strip_abc: "strip ''a.b.c'' = ''a.b.c''"
  by code_simp

lemma py_int_a: "py_int ''a'' = Inl ValueError"
  by code_simp

lemma newer_abc: "is_version_newer_then ''a.b.c'' v = Inl ValueError"
  by (simp add: is_version_newer_then_def split_abc item_def ebind_def py_int_a Let_def)

lemma fetch_abc:
  assumes "requests_get env remote_get_url = Inr \<lparr>status_code = 200, body = ''a.b.c''\<rparr>"
  shows "fetch_remote_version env l = (Inr (Some ''a.b.c''), l @ [HttpGet remote_get_url])"
  using assms
  by (simp add: fetch_remote_version_def try_except_def get_io_def io_ret_def strip_abc split_abc)

lemma check_version_abc:
  assumes "rclient env = Some lib"
    and "requests_get env remote_get_url = Inr \<lparr>status_code = 200, body = ''a.b.c''\<rparr>"
  shows "check_version tr env results l = (Inl ValueError, l @ [HttpGet remote_get_url])"
  using assms(1) fetch_abc [OF assms(2), of l]
  by (simp add: check_version_def Let_def io_bind_def lift_def newer_abc)

text \<open>The version check is the last one: when it raises, so does the whole body.\<close>

lemma body_raises_if_version_raises:
  assumes "\<And>results. raises (check_version tr env results)"
    and "sysname (os_uname env) = ''Linux''"
  shows "raises (troubleshoot_body tr env)"
  unfolding troubleshoot_body_def uname_io_def
  apply (rule raises_bind_perform)
  apply (simp add: assms(2))
  apply ((rule raises_bind_first, rule assms(1)) | rule raises_bind raises_case_prod)+
  done

text \<open>
  Claim C10. The guard of line 275 only asks for status 200 and three fields between the
  dots. With the library present and the answer \<^verbatim>\<open>a.b.c\<close>, the text is accepted as
  the remote version, \<^verbatim>\<open>int('a')\<close> in the comparison raises \<^verbatim>\<open>ValueError\<close>
  out of the version check, and the run as a whole ends in the fatal string: whatever
  had been collected in \<open>results\<close> is not returned.
\<close>

theorem non_numeric_remote_version_is_fatal:
  assumes "sysname (os_uname env) = ''Linux''"
    and "rclient env = Some lib"
    and "requests_get env remote_get_url = Inr \<lparr>status_code = 200, body = ''a.b.c''\<rparr>"
  shows "fetch_remote_version env l = (Inr (Some ''a.b.c''), l @ [HttpGet remote_get_url])
       \<and> check_version tr env results l = (Inl ValueError, l @ [HttpGet remote_get_url])
       \<and> (\<exists>e. fst (troubleshoot get_exception_as_string tr env l)
                = Fatal (get_exception_as_string e))"
proof -
  have "raises (check_version tr env rs)" for rs
    using check_version_abc [OF assms(2,3)] by (simp add: raises_def)
  then have "raises (troubleshoot_body tr env)"
    using assms(1) by (rule body_raises_if_version_raises)
  then obtain e l' where "troubleshoot_body tr env l = (Inl e, l')"
    unfolding raises_def by blast
  then have "fst (troubleshoot get_exception_as_string tr env l) = Fatal (get_exception_as_string e)"
    by (simp add: troubleshoot_def)
  with fetch_abc [OF assms(3)] check_version_abc [OF assms(2,3)] show ?thesis by blast
qed

lemma remote_abc_run:
  "fst (troubleshoot exn_name id remote_abc []) = Fatal ''ValueError''"
  by code_simp

theorem non_numeric_remote_version_is_fatal_witness:
  "sysname (os_uname remote_abc) = ''Linux''
   \<and> rclient remote_abc = Some sample_lib
   \<and> requests_get remote_abc remote_get_url = Inr \<lparr>status_code = 200, body = ''a.b.c''\<rparr>
   \<and> check_version id remote_abc [] [] = (Inl ValueError, [HttpGet remote_get_url])
   \<and> fst (troubleshoot exn_name id remote_abc []) = Fatal ''ValueError''"
  using non_numeric_remote_version_is_fatal [of remote_abc sample_lib "[]" id "[]" exn_name]
    remote_abc_run
  by (simp add: remote_abc_def with_lib_def bare_linux_def)

subsection \<open>What a run that returns a report has done\<close>

lemma io_bind_InrE:
  assumes "io_bind m f l = (Inr y, l')"
  obtains x l1 where "m l = (Inr x, l1)" and "f x l1 = (Inr y, l')"
  using assms by (auto simp: io_bind_def split: prod.splits sum.splits)

lemmas io_defs = io_ret_def lift_def perform_def io_bind_def try_except_def uname_io_def
  environ_io_def getuid_io_def which_io_def exists_io_def open_io_def popen_io_def glob_io_def
  expanduser_io_def devices_io_def get_io_def

lemma daemon_pid_path_ok:
  "daemon_pid_path env l = (r, l') \<Longrightarrow> \<exists>evs. l' = l @ evs \<and> list_all (answered env) evs"
  by (auto simp: daemon_pid_path_def io_defs split: option.splits if_splits)

lemma check_daemon_installed_ok:
  "check_daemon_installed tr env rs l = (Inr rs', l') \<Longrightarrow>
     map test_name rs' = map test_name rs @ [tr ''Daemon is installed'']
     \<and> (\<exists>evs. l' = l @ evs \<and> list_all (answered env) evs)"
  by (auto simp: check_daemon_installed_def io_defs)

lemma check_daemon_running_ok:
  "check_daemon_running tr env p rs l = (Inr rs', l') \<Longrightarrow>
     map test_name rs' = map test_name rs @ [tr ''Daemon is running'']
     \<and> (\<exists>evs. l' = l @ evs \<and> list_all (answered env) evs)"
  by (auto simp: check_daemon_running_def daemon_is_running_def io_defs
       split: sum.splits if_splits)

lemma check_python_lib_ok:
  "check_python_lib tr env rs l = (Inr rs', l') \<Longrightarrow>
     map test_name rs' = map test_name rs @ [tr ''Python library is installed'']
     \<and> (\<exists>evs. l' = l @ evs \<and> list_all (answered env) evs)"
  by (auto simp: check_python_lib_def io_defs)

lemma check_dkms_ok:
  "check_dkms tr env (os_uname env) rs l = (Inr x, l') \<Longrightarrow>
     map test_name (snd x) = map test_name rs @ (case rclient env of None \<Rightarrow> [] | Some lib \<Rightarrow>
            [tr ''DKMS sources are installed'',
             tr ''DKMS module has been built for this kernel version''])
     \<and> fst x = (case rclient env of None \<Rightarrow> None | Some lib \<Rightarrow> Some (path_exists env (dkms_build_path env)))
     \<and> (\<exists>evs. l' = l @ evs \<and> list_all (answered env) evs)"
  by (auto simp: check_dkms_def dkms_build_path_def io_defs Let_def split: option.splits)

lemma check_modprobe_ok:
  "check_modprobe tr env rs l = (Inr rs', l') \<Longrightarrow>
     map test_name rs' = map test_name rs @ [tr ''DKMS module can be probed'']
     \<and> (\<exists>evs. l' = l @ evs \<and> list_all (answered env) evs)"
  by (auto simp: check_modprobe_def io_defs split: sum.splits prod.splits)

lemma check_lsmod_ok:
  "check_lsmod tr env rs l = (Inr rs', l') \<Longrightarrow>
     map test_name rs' = map test_name rs @ [tr ''DKMS module is currently loaded'']
     \<and> (\<exists>evs. l' = l @ evs \<and> list_all (answered env) evs)"
  by (auto simp: check_lsmod_def io_defs split: sum.splits prod.splits)

lemma check_secure_boot_ok:
  "check_secure_boot tr env rs l = (Inr rs', l') \<Longrightarrow>
     map test_name rs' = map test_name rs @ (if path_exists env ''/sys/firmware/efi''
        then [tr ''Check Secure Boot (EFI) status''] else [])
     \<and> (\<exists>evs. l' = l @ evs \<and> list_all (answered env) evs)"
  by (auto simp: check_secure_boot_def io_defs split: sum.splits prod.splits if_splits)

lemma check_plugdev_ok:
  "check_plugdev tr env rs l = (Inr rs', l') \<Longrightarrow>
     map test_name rs' = map test_name rs @ [tr ''User account has been added to the 'plugdev' group'']
     \<and> (\<exists>evs. l' = l @ evs \<and> list_all (answered env) evs)"
  by (auto simp: check_plugdev_def io_defs split: sum.splits prod.splits)

lemma check_log_ok:
  "check_log tr env rs l = (Inr rs', l') \<Longrightarrow>
     map test_name rs' = map test_name rs @ (if path_exists env (log_path env)
        then [tr ''Check OpenRazer log for plugdev permission errors''] else [])
     \<and> (\<exists>evs. l' = l @ evs \<and> list_all (answered env) evs)"
  by (auto simp: check_log_def log_path_def io_defs Let_def split: sum.splits prod.splits if_splits)

lemma get_filtered_lsusb_list_ok:
  "rclient env = Some lib \<Longrightarrow> get_filtered_lsusb_list env lib l = (Inr found, l') \<Longrightarrow>
     (found = None \<longleftrightarrow> popen env [''lsusb''] = Inl FileNotFoundError)
     \<and> (\<exists>evs. l' = l @ evs \<and> list_all (answered env) evs)"
  by (auto simp: get_filtered_lsusb_list_def io_defs split: sum.splits prod.splits if_splits option.splits)

lemma check_unsupported_ok:
  "check_unsupported tr env built rs l = (Inr rs', l') \<Longrightarrow>
     map test_name rs' = map test_name rs @ (case rclient env of
          None \<Rightarrow> []
        | Some lib \<Rightarrow>
            if built = Some True \<and> popen env [''lsusb''] \<noteq> Inl FileNotFoundError
            then [tr ''Check for unsupported hardware''] else [])
     \<and> (\<exists>evs. l' = l @ evs \<and> list_all (answered env) evs)"
  apply (cases "rclient env")
   apply (simp add: check_unsupported_def io_defs)
  apply (cases "built = Some True")
   apply (auto simp: check_unsupported_def elim!: io_bind_InrE dest!: get_filtered_lsusb_list_ok split: option.splits)
   apply (auto simp: io_defs)
  done

lemma check_version_ok:
  "check_version tr env rs l = (Inr rs', l') \<Longrightarrow>
     map test_name rs' = map test_name rs @ (case rclient env of
          None \<Rightarrow> []
        | Some lib \<Rightarrow> [tr ''OpenRazer is the latest version''])
     \<and> (\<exists>evs. l' = l @ evs \<and> list_all (answered env) evs)"
  by (auto simp: check_version_def fetch_remote_version_def version_unknown_def io_defs Let_def
        split: sum.splits prod.splits if_splits option.splits)



lemma body_returns:
  assumes "troubleshoot_body tr env l = (Inr (Some rs), l')"
  shows "map test_name rs = report_names tr env \<and> (\<exists>evs. l' = l @ evs \<and> list_all (answered env) evs)"
  using assms unfolding troubleshoot_body_def uname_io_def case_prod_beta
  apply (simp add: io_ret_def split: if_splits)
  apply (elim io_bind_InrE)
  apply (drule daemon_pid_path_ok check_daemon_installed_ok
    check_daemon_running_ok check_python_lib_ok check_dkms_ok
    check_modprobe_ok check_lsmod_ok check_secure_boot_ok
    check_plugdev_ok check_log_ok check_unsupported_ok
    check_version_ok)+
  apply (elim conjE exE)
  apply hypsubst
  apply (rule conjI)
   apply (simp add: report_names_def split: option.splits)
  apply (thin_tac "map test_name _ = _")+
  apply (thin_tac "fst _ = _")
  apply clarsimp
  done


lemma body_none_not_linux:
  assumes "troubleshoot_body tr env l = (Inr None, l')"
  shows "sysname (os_uname env) \<noteq> ''Linux''"
proof
  assume "sysname (os_uname env) = ''Linux''"
  with assms show False
    unfolding troubleshoot_body_def uname_io_def case_prod_beta
    by (simp, elim io_bind_InrE) (simp add: io_ret_def)
qed

text \<open>
  Claim C2. Whatever the machine, the call ends in exactly one of three ways. It returns
  \<^verbatim>\<open>None\<close>, and then the platform is not Linux. Or it returns a report, and then the
  report is complete (it lists, in order, every check that applies on this machine) and
  every read of the machine made during the run was answered. Or the body raised some
  exception \<open>e\<close>, and then the caller receives only the string made from \<open>e\<close>: nothing
  of \<open>results\<close> is returned and no exception leaves the function.
\<close>

theorem troubleshoot_outcomes:
  "(sysname (os_uname env) \<noteq> ''Linux''
      \<and> troubleshoot get_exception_as_string tr env l = (NotApplicable, l @ [Uname]))
   \<or> (\<exists>rs evs. troubleshoot get_exception_as_string tr env l = (Report rs, l @ evs)
          \<and> troubleshoot_body tr env l = (Inr (Some rs), l @ evs)
          \<and> map test_name rs = report_names tr env
          \<and> list_all (answered env) evs)
   \<or> (\<exists>e l'. troubleshoot get_exception_as_string tr env l
                 = (Fatal (get_exception_as_string e), l')
          \<and> troubleshoot_body tr env l = (Inl e, l'))"
proof -
  obtain r l' where run: "troubleshoot_body tr env l = (r, l')"
    by (cases "troubleshoot_body tr env l")
  show ?thesis
  proof (cases r)
    case (Inl e)
    with run show ?thesis by (simp add: troubleshoot_def)
  next
    case (Inr v)
    show ?thesis
    proof (cases v)
      case None
      with run Inr have "sysname (os_uname env) \<noteq> ''Linux''"
        by (simp add: body_none_not_linux)
      then show ?thesis
        by (simp add: troubleshoot_def troubleshoot_body_def uname_io_def io_ret_def)
    next
      case (Some rs)
      with run Inr have body: "troubleshoot_body tr env l = (Inr (Some rs), l')" by simp
      from body_returns [OF body] obtain evs where
        "map test_name rs = report_names tr env" "l' = l @ evs" "list_all (answered env) evs"
        by blast
      with body show ?thesis by (simp add: troubleshoot_def)
    qed
  qed
qed

lemma bare_linux_names:
  "report_names id bare_linux
     = [''Daemon is installed'', ''Daemon is running'', ''Python library is installed'',
        ''DKMS module can be probed'', ''DKMS module is currently loaded'',
        ''User account has been added to the 'plugdev' group'']"
  by code_simp

theorem troubleshoot_outcomes_witness:
  "sysname (os_uname bare_linux) = ''Linux''
   \<and> (\<exists>rs evs. troubleshoot exn_name id bare_linux [] = (Report rs, evs)
          \<and> map test_name rs
               = [''Daemon is installed'', ''Daemon is running'', ''Python library is installed'',
                  ''DKMS module can be probed'', ''DKMS module is currently loaded'',
                  ''User account has been added to the 'plugdev' group'']
          \<and> list_all (answered bare_linux) evs)
   \<and> sysname (os_uname darwin) \<noteq> ''Linux''
   \<and> troubleshoot exn_name id darwin [] = (NotApplicable, [Uname])
   \<and> (\<exists>evs. troubleshoot exn_name id bad_pid [] = (Fatal ''ValueError'', evs))"
proof -
  have a: "case fst (troubleshoot exn_name id bare_linux []) of
             Report rs \<Rightarrow> True | _ \<Rightarrow> False"
    by code_simp
  have b: "case troubleshoot_body id bad_pid [] of (r, evs) \<Rightarrow> r = Inl ValueError"
    by code_simp
  have c: "sysname (os_uname bare_linux) = ''Linux''" "sysname (os_uname darwin) \<noteq> ''Linux''"
    "sysname (os_uname bad_pid) = ''Linux''"
    by (simp_all add: bare_linux_def darwin_def bad_pid_def)
  from a c troubleshoot_outcomes [of bare_linux exn_name id "[]"] bare_linux_names
  have 1: "\<exists>rs evs. troubleshoot exn_name id bare_linux [] = (Report rs, evs)
          \<and> map test_name rs
               = [''Daemon is installed'', ''Daemon is running'', ''Python library is installed'',
                  ''DKMS module can be probed'', ''DKMS module is currently loaded'',
                  ''User account has been added to the 'plugdev' group'']
          \<and> list_all (answered bare_linux) evs"
    by (auto split: outcome.splits)
  have 2: "troubleshoot exn_name id darwin [] = (NotApplicable, [Uname])"
    by code_simp
  from b c troubleshoot_outcomes [of bad_pid exn_name id "[]"]
  have 3: "\<exists>evs. troubleshoot exn_name id bad_pid [] = (Fatal ''ValueError'', evs)"
    by (auto split: prod.splits)
  from 1 2 3 c show ?thesis by blast
qed

subsection \<open>Reconciling the plugged devices with the known ones\<close>

lemma unregistered_filter:
  "unregistered plugged known acc
     = acc @ filter (\<lambda>u. fst u = ''1532'' \<and> u \<notin> set known) plugged"
  by (induction plugged arbitrary: acc) simp_all

lemma get_filtered_lsusb_list_found:
  assumes "popen env [''lsusb''] = Inr (out, code)"
    and "scan_lsusb (split CHR 0x0A out) [] = Inr plugged"
    and "devices lib = Inr devs"
  shows "get_filtered_lsusb_list env lib l
           = (Inr (Some (unregistered plugged (registered_ids devs []) [])),
              l @ [Popen [''lsusb''], DeviceManager])"
  using assms
  by (simp add: get_filtered_lsusb_list_def try_except_def popen_io_def devices_io_def
        io_bind_def perform_def io_ret_def lift_def)

text \<open>
  Claim C4. For every list of parsed pairs and every list of known pairs, the loop of
  lines 244 to 251 keeps exactly the pairs whose vendor is \<^verbatim>\<open>1532\<close> and that are not
  in the known list. When the listing and the device manager answer, the check is added
  to the report and it passes exactly when no such pair remains.
\<close>

theorem device_reconciliation:
  "set (unregistered plugged known [])
      = {u \<in> set plugged. fst u = ''1532'' \<and> u \<notin> set known}
   \<and> (rclient env = Some lib \<and> popen env [''lsusb''] = Inr (out, code)
        \<and> scan_lsusb (split CHR 0x0A out) [] = Inr plugged
        \<and> devices lib = Inr devs \<and> known = registered_ids devs []
      \<longrightarrow> (\<exists>r. check_unsupported tr env (Some True) results l
                  = (Inr (results @ [r]), l @ [Popen [''lsusb''], DeviceManager])
               \<and> test_name r = tr ''Check for unsupported hardware''
               \<and> passed r
                    = Some ({u \<in> set plugged. fst u = ''1532'' \<and> u \<notin> set known} = {})))"
proof (intro conjI impI)
  show "set (unregistered plugged known [])
      = {u \<in> set plugged. fst u = ''1532'' \<and> u \<notin> set known}"
    by (auto simp: unregistered_filter)
next
  assume a: "rclient env = Some lib \<and> popen env [''lsusb''] = Inr (out, code)
        \<and> scan_lsusb (split CHR 0x0A out) [] = Inr plugged
        \<and> devices lib = Inr devs \<and> known = registered_ids devs []"
  then have "get_filtered_lsusb_list env lib l
           = (Inr (Some (unregistered plugged known [])),
              l @ [Popen [''lsusb''], DeviceManager])"
    by (simp add: get_filtered_lsusb_list_found)
  with a show "\<exists>r. check_unsupported tr env (Some True) results l
                  = (Inr (results @ [r]), l @ [Popen [''lsusb''], DeviceManager])
               \<and> test_name r = tr ''Check for unsupported hardware''
               \<and> passed r
                    = Some ({u \<in> set plugged. fst u = ''1532'' \<and> u \<notin> set known} = {})"
    by (auto simp: check_unsupported_def io_bind_def io_ret_def unregistered_filter
          filter_empty_conv)
qed

lemma usb_scan:
  "scan_lsusb (split CHR 0x0A usb_output) [] = Inr [(''1532'', ''0203''), (''046D'', ''C52B'')]"
  by code_simp

lemma sample_registered:
  "registered_ids [\<lparr>dev_vid = Some 5426, dev_pid = Some 515\<rparr>] [] = [(''1532'', ''0203'')]"
  by code_simp

theorem device_reconciliation_witness:
  "rclient usb_machine = Some sample_lib
   \<and> popen usb_machine [''lsusb''] = Inr (usb_output, 0)
   \<and> scan_lsusb (split CHR 0x0A usb_output) [] = Inr [(''1532'', ''0203''), (''046D'', ''C52B'')]
   \<and> devices sample_lib = Inr [\<lparr>dev_vid = Some 5426, dev_pid = Some 515\<rparr>]
   \<and> registered_ids [\<lparr>dev_vid = Some 5426, dev_pid = Some 515\<rparr>] [] = [(''1532'', ''0203'')]
   \<and> set (unregistered [(''1532'', ''0203''), (''046D'', ''C52B'')] [(''1532'', ''0203'')] []) = {}
   \<and> set (unregistered [(''1532'', ''0203''), (''046D'', ''C52B'')] [] [])
         = {(''1532'', ''0203'')}
   \<and> (\<exists>r. check_unsupported id usb_machine (Some True) [] []
              = (Inr [r], [Popen [''lsusb''], DeviceManager])
          \<and> test_name r = ''Check for unsupported hardware''
          \<and> passed r = Some True)"
  using
    device_reconciliation [where plugged = "[(''1532'', ''0203''), (''046D'', ''C52B'')]"
      and known = "[(''1532'', ''0203'')]" and env = usb_machine and lib = sample_lib
      and out = usb_output and code = 0
      and devs = "[\<lparr>dev_vid = Some 5426, dev_pid = Some 515\<rparr>]"
      and tr = id and results = "[]" and l = "[]"]
    device_reconciliation [where plugged = "[(''1532'', ''0203''), (''046D'', ''C52B'')]"
      and known = "[]" and env = usb_machine and lib = sample_lib]
    usb_scan sample_registered
  by (auto simp: usb_machine_def with_lib_def bare_linux_def sample_lib_def)

subsection \<open>The version comparison\<close>

text \<open>
  Claim C1. The claim asks that a remote version with a smaller major number is never
  newer. The function sets its result from the major numbers and then, whatever the
  majors were, sets it again from the comparison of \<^verbatim>\<open>minor.patch\<close> read as one
  decimal number (lines 287 to 291). So \<^verbatim>\<open>2.9.9\<close> is reported newer than
  \<^verbatim>\<open>3.0.0\<close>, because 9.9 exceeds 0.0. The two other examples of the claim hold.
\<close>

theorem older_major_reported_newer:
  "is_version_newer_then ''2.9.9'' ''3.0.0'' = Inr True
   \<and> is_version_newer_then ''3.1.0'' ''3.0.9'' = Inr True
   \<and> is_version_newer_then ''3.0.1'' ''3.0.0'' = Inr True"
  by code_simp

subsection \<open>Lines of the device listing that do not have the expected shape\<close>

text \<open>
  Claim C5. The claim asks that a line without a sixth field, or whose sixth field has no
  colon, is skipped. The handler of line 228 catches \<^verbatim>\<open>AttributeError\<close>, while
  indexing past the end of a list raises \<^verbatim>\<open>IndexError\<close>: the exception leaves the
  loop, the pair parsed from the line before is lost with it, and the run ends in the
  fatal string.
\<close>

theorem malformed_line_aborts_scan:
  "parse_vidpid ''Bus 001'' = Inl IndexError
   \<and> parse_vidpid ''Bus 001 Device 002: ID 15320203 Razer'' = Inl IndexError
   \<and> scan_lsusb [''Bus 001 Device 002: ID 1532:0203 Razer USA, Ltd'', ''Bus 001''] []
         = Inl IndexError
   \<and> troubleshoot exn_name id short_line []
         = (Fatal ''IndexError'',
            [Uname, Environ ''XDG_RUNTIME_DIR'', Getuid, Which ''openrazer-daemon'',
             Exists ''/run/user/1000/openrazer-daemon.pid'',
             Exists ''/var/lib/dkms/openrazer-driver/3.0.1'',
             Exists ''/var/lib/dkms/openrazer-driver/kernel-5.4.0-x86_64'',
             Popen [''modprobe'', ''-n'', ''razerkbd''], Popen [''lsmod''],
             Exists ''/sys/firmware/efi'', Popen [''groups''], ExpandUser ''~'',
             Exists ''/home/user/.local/share/openrazer/logs/razer.log'',
             Popen [''lsusb'']])"
  by code_simp

subsection \<open>A failed request for the latest version\<close>

lemma check_version_offline:
  assumes "rclient env = Some lib"
    and "requests_get env remote_get_url = Inl e"
  shows "check_version tr env results l
           = (Inr (results @ [version_unknown tr]), l @ [HttpGet remote_get_url])"
  using assms
  by (simp add: check_version_def fetch_remote_version_def try_except_def get_io_def
        io_bind_def perform_def io_ret_def)

lemma io_bind_Inl_mono:
  assumes "io_bind m f l = (Inl e, l')"
    and "\<And>x l1. m l = (Inr x, l1) \<Longrightarrow> f x l1 = (Inl e, l') \<Longrightarrow> g x l1 = (Inl e, l')"
  shows "io_bind m g l = (Inl e, l')"
  using assms by (auto simp: io_bind_def split: prod.splits sum.splits)

lemma reads_ignore_network:
  "uname_io (env\<lparr>requests_get := g\<rparr>) = uname_io env"
  "environ_io (env\<lparr>requests_get := g\<rparr>) = environ_io env"
  "getuid_io (env\<lparr>requests_get := g\<rparr>) = getuid_io env"
  "which_io (env\<lparr>requests_get := g\<rparr>) = which_io env"
  "exists_io (env\<lparr>requests_get := g\<rparr>) = exists_io env"
  "open_io (env\<lparr>requests_get := g\<rparr>) = open_io env"
  "popen_io (env\<lparr>requests_get := g\<rparr>) = popen_io env"
  "glob_io (env\<lparr>requests_get := g\<rparr>) = glob_io env"
  "expanduser_io (env\<lparr>requests_get := g\<rparr>) = expanduser_io env"
  "rclient (env\<lparr>requests_get := g\<rparr>) = rclient env"
  by (simp_all add: fun_eq_iff uname_io_def environ_io_def getuid_io_def which_io_def
      exists_io_def open_io_def popen_io_def glob_io_def expanduser_io_def)

lemma steps_ignore_network:
  "daemon_pid_path (env\<lparr>requests_get := g\<rparr>) = daemon_pid_path env"
  "check_daemon_installed tr (env\<lparr>requests_get := g\<rparr>) = check_daemon_installed tr env"
  "check_daemon_running tr (env\<lparr>requests_get := g\<rparr>) = check_daemon_running tr env"
  "check_python_lib tr (env\<lparr>requests_get := g\<rparr>) = check_python_lib tr env"
  "check_dkms tr (env\<lparr>requests_get := g\<rparr>) = check_dkms tr env"
  "check_modprobe tr (env\<lparr>requests_get := g\<rparr>) = check_modprobe tr env"
  "check_lsmod tr (env\<lparr>requests_get := g\<rparr>) = check_lsmod tr env"
  "check_secure_boot tr (env\<lparr>requests_get := g\<rparr>) = check_secure_boot tr env"
  "check_plugdev tr (env\<lparr>requests_get := g\<rparr>) = check_plugdev tr env"
  "check_log tr (env\<lparr>requests_get := g\<rparr>) = check_log tr env"
  "check_unsupported tr (env\<lparr>requests_get := g\<rparr>) = check_unsupported tr env"
  unfolding fun_eq_iff daemon_pid_path_def check_daemon_installed_def
      check_daemon_running_def daemon_is_running_def check_python_lib_def check_dkms_def
      check_modprobe_def check_lsmod_def check_secure_boot_def check_plugdev_def check_log_def
      check_unsupported_def get_filtered_lsusb_list_def reads_ignore_network
  by simp_all

lemma fatal_not_from_network:
  assumes "rclient env = Some lib"
    and "requests_get env remote_get_url = Inl e"
    and "troubleshoot_body tr env l = (Inl e', l')"
  shows "troubleshoot_body tr (env\<lparr>requests_get := g\<rparr>) l = (Inl e', l')"
  using assms(3) unfolding troubleshoot_body_def case_prod_beta steps_ignore_network
    reads_ignore_network
  apply (simp add: uname_io_def split: if_splits)
  apply (erule io_bind_Inl_mono)+
  apply (simp add: io_bind_def io_ret_def check_version_offline [OF assms(1,2)])
  done

lemma offline_report_ends_with_unknown:
  assumes "rclient env = Some lib"
    and "requests_get env remote_get_url = Inl e"
    and "troubleshoot_body tr env l = (Inr (Some rs), l')"
  shows "rs \<noteq> [] \<and> last rs = version_unknown tr"
  using assms(3) unfolding troubleshoot_body_def case_prod_beta
  apply (simp add: uname_io_def io_ret_def split: if_splits)
  apply (elim io_bind_InrE)
  apply (simp add: check_version_offline [OF assms(1,2)])
  apply auto
  done

text \<open>
  Claim C7. When the library is present and the request of line 272 raises, the version
  check appends one entry and does not raise. The entry has the name of the version check,
  the outcome \<^verbatim>\<open>None\<close> (indeterminate) and the three suggestions of lines 310 to
  312: the data could not be retrieved, check the website for the device, and look at the
  \<^verbatim>\<open>stable\<close> branch of the repository. For the run as a whole: a returned report
  ends with that entry; and if the run is fatal, it is fatal with the same message
  whatever the web server would have answered, so the failed request is not the cause.
\<close>

theorem network_failure_is_indeterminate:
  assumes "rclient env = Some lib"
    and "requests_get env remote_get_url = Inl e"
  shows "check_version tr env results l
           = (Inr (results @ [version_unknown tr]), l @ [HttpGet remote_get_url])
       \<and> test_name (version_unknown tr) = tr ''OpenRazer is the latest version''
       \<and> suggestions (version_unknown tr) =
           [tr ''Unable to retrieve this data from OpenRazer's website.'',
            tr ''Check the OpenRazer website to confirm your device is listed as supported.'',
            tr ''If you're checking the GitHub repository, check the 'stable' branch.'']
       \<and> passed (version_unknown tr) = None
       \<and> (case fst (troubleshoot get_exception_as_string tr env l) of
             NotApplicable \<Rightarrow> sysname (os_uname env) \<noteq> ''Linux''
           | Report rs \<Rightarrow> rs \<noteq> [] \<and> last rs = version_unknown tr
           | Fatal msg \<Rightarrow>
               (\<forall>g. fst (troubleshoot get_exception_as_string tr
                            (env\<lparr>requests_get := g\<rparr>) l) = Fatal msg))"
proof -
  obtain r l' where run: "troubleshoot_body tr env l = (r, l')"
    by (cases "troubleshoot_body tr env l")
  have "case fst (troubleshoot get_exception_as_string tr env l) of
             NotApplicable \<Rightarrow> sysname (os_uname env) \<noteq> ''Linux''
           | Report rs \<Rightarrow> rs \<noteq> [] \<and> last rs = version_unknown tr
           | Fatal msg \<Rightarrow>
               (\<forall>g. fst (troubleshoot get_exception_as_string tr
                            (env\<lparr>requests_get := g\<rparr>) l) = Fatal msg)"
  proof (cases r)
    case (Inl e')
    with run fatal_not_from_network [OF assms, of tr l e' l']
    show ?thesis by (simp add: troubleshoot_def)
  next
    case (Inr v)
    show ?thesis
    proof (cases v)
      case None
      with run Inr body_none_not_linux [of tr env l l']
      show ?thesis by (simp add: troubleshoot_def)
    next
      case (Some rs)
      with run Inr offline_report_ends_with_unknown [OF assms, of tr l rs l']
      show ?thesis by (simp add: troubleshoot_def)
    qed
  qed
  with check_version_offline [OF assms] show ?thesis
    by (simp add: version_unknown_def)
qed

theorem network_failure_is_indeterminate_witness:
  "rclient with_lib = Some sample_lib
   \<and> requests_get with_lib remote_get_url = Inl (OtherException ''ConnectionError'')
   \<and> check_version id with_lib [] [] = (Inr [version_unknown id], [HttpGet remote_get_url])
   \<and> suggestions (version_unknown id) =
       [''Unable to retrieve this data from OpenRazer's website.'',
        ''Check the OpenRazer website to confirm your device is listed as supported.'',
        ''If you're checking the GitHub repository, check the 'stable' branch.'']
   \<and> passed (version_unknown id) = None
   \<and> (\<exists>rs. fst (troubleshoot exn_name id with_lib []) = Report rs
           \<and> last rs = version_unknown id)"
proof -
  have "case fst (troubleshoot exn_name id with_lib []) of Report rs \<Rightarrow> True | _ \<Rightarrow> False"
    by code_simp
  then have "\<exists>rs. fst (troubleshoot exn_name id with_lib []) = Report rs"
    by (simp split: outcome.splits)
  with network_failure_is_indeterminate [of with_lib sample_lib
      "OtherException ''ConnectionError''" id "[]" "[]" exn_name]
  show ?thesis
    by (auto simp: with_lib_def bare_linux_def)
qed

subsection \<open>Reading back a printed number\<close>

















subsection \<open>The Secure Boot check\<close>




subsection \<open>What is missing, and what is malformed\<close>

text \<open>
  The claim C6 as it is stated fails: a daemon PID file whose first line is not a number
  makes \<^verbatim>\<open>int(f.readline())\<close> of line 63 raise \<^verbatim>\<open>ValueError\<close>, nothing
  around it catches that, and the run ends in the fatal string.
\<close>

theorem malformed_pid_file_is_fatal:
  "path_exists bad_pid ''/run/user/1000/openrazer-daemon.pid''
   \<and> open_read bad_pid ''/run/user/1000/openrazer-daemon.pid'' = Inr (''abc'' @ [CHR 0x0A])
   \<and> troubleshoot exn_name id bad_pid []
         = (Fatal ''ValueError'',
            [Uname, Environ ''XDG_RUNTIME_DIR'', Getuid, Which ''openrazer-daemon'',
             Exists ''/run/user/1000/openrazer-daemon.pid'',
             Open ''/run/user/1000/openrazer-daemon.pid''])"
  by code_simp

lemma nothing_optional_report:
  assumes "sysname (os_uname env) = ''Linux''"
    and "\<And>p. \<not> path_exists env p"
    and "\<not> isl (popen env [''modprobe'', ''-n'', ''razerkbd''])"
    and "\<not> isl (popen env [''lsmod''])"
    and "\<not> isl (popen env [''groups''])"
    and "rclient env = None \<or> requests_get env remote_get_url = Inl e"
  shows "\<exists>rs l'. troubleshoot_body tr env l = (Inr (Some rs), l')"
proof -
  obtain o1 c1 o2 c2 o3 c3 where tools:
    "popen env [''modprobe'', ''-n'', ''razerkbd''] = Inr (o1, c1)"
    "popen env [''lsmod''] = Inr (o2, c2)"
    "popen env [''groups''] = Inr (o3, c3)"
    using assms(3,4,5)
    by (cases "popen env [''modprobe'', ''-n'', ''razerkbd'']"; cases "popen env [''lsmod'']";
        cases "popen env [''groups'']") auto
  show ?thesis
    using assms(1,2,6) tools
    by (cases "os_environ env ''XDG_RUNTIME_DIR''"; cases "rclient env")
      (simp_all add: troubleshoot_body_def daemon_pid_path_def check_daemon_installed_def
        check_daemon_running_def daemon_is_running_def check_python_lib_def check_dkms_def
        check_modprobe_def check_lsmod_def check_secure_boot_def check_plugdev_def check_log_def
        check_unsupported_def check_version_def fetch_remote_version_def io_defs Let_def)
qed

lemma bare_linux_paths:
  "path_join (path_join ''/run/user/'' (str_int 1000)) ''openrazer-daemon.pid''
     = ''/run/user/1000/openrazer-daemon.pid''"
  "log_path bare_linux = ''/home/user/.local/share/openrazer/logs/razer.log''"
  by code_simp+

lemma with_lib_names:
  "report_names id with_lib
     = [''Daemon is installed'', ''Daemon is running'', ''Python library is installed'',
        ''DKMS sources are installed'', ''DKMS module has been built for this kernel version'',
        ''DKMS module can be probed'', ''DKMS module is currently loaded'',
        ''User account has been added to the 'plugdev' group'',
        ''OpenRazer is the latest version'']"
  by code_simp

text \<open>
  Claim C6, amended. What the code guards are the absences it expects, and each of them
  leaves its own check failed, indeterminate or left out, without raising: an unset
  \<^verbatim>\<open>XDG_RUNTIME_DIR\<close> (the path below \<^verbatim>\<open>/run/user\<close> is used), a missing PID
  file (daemon not running), a missing firmware directory (no Secure Boot entry), a
  missing Secure Boot variable (indeterminate), a missing log file (no log entry), an
  \<^verbatim>\<open>lsusb\<close> that cannot be found (no hardware entry), a failed request for the
  latest version (indeterminate), a missing client library (its three checks left out).
  On a Linux machine where no file exists, the three tools that are always run answer,
  and the library is missing or the request fails, the run returns a complete report.
\<close>

theorem guarded_absences:
  "(os_environ env ''XDG_RUNTIME_DIR'' = None \<longrightarrow>
      daemon_pid_path env l
        = (Inr (path_join (path_join ''/run/user/'' (str_int (os_getuid env)))
                  ''openrazer-daemon.pid''),
           l @ [Environ ''XDG_RUNTIME_DIR'', Getuid]))
   \<and> (\<not> path_exists env p \<longrightarrow>
      check_daemon_running tr env p results l
        = (Inr (results @
             [\<lparr>test_name = tr ''Daemon is running'',
               suggestions =
                 [tr ''Start the daemon from the terminal. Run this command and look for errors:'',
                  ''$ openrazer-daemon -Fv''],
               passed = Some False\<rparr>]),
           l @ [Exists p]))
   \<and> (\<not> path_exists env ''/sys/firmware/efi'' \<longrightarrow>
      check_secure_boot tr env results l = (Inr results, l @ [Exists ''/sys/firmware/efi'']))
   \<and> (path_exists env ''/sys/firmware/efi''
        \<and> glob_glob env ''/sys/firmware/efi/efivars/SecureBoot*'' = [] \<longrightarrow>
      (\<exists>r. check_secure_boot tr env results l
              = (Inr (results @ [r]),
                 l @ [Exists ''/sys/firmware/efi'',
                      Glob ''/sys/firmware/efi/efivars/SecureBoot*''])
          \<and> passed r = None))
   \<and> (\<not> path_exists env (log_path env) \<longrightarrow>
      check_log tr env results l
        = (Inr results, l @ [ExpandUser ''~'', Exists (log_path env)]))
   \<and> (rclient env = Some lib \<and> popen env [''lsusb''] = Inl FileNotFoundError \<longrightarrow>
      check_unsupported tr env (Some True) results l
        = (Inr results, l @ [Popen [''lsusb'']]))
   \<and> (rclient env = Some lib \<and> requests_get env remote_get_url = Inl e \<longrightarrow>
      check_version tr env results l
        = (Inr (results @ [version_unknown tr]), l @ [HttpGet remote_get_url])
      \<and> passed (version_unknown tr) = None)
   \<and> (rclient env = None \<longrightarrow>
      check_dkms tr env un results l = (Inr (None, results), l)
      \<and> check_unsupported tr env built results l = (Inr results, l)
      \<and> check_version tr env results l = (Inr results, l))
   \<and> (sysname (os_uname env) = ''Linux'' \<and> (\<forall>q. \<not> path_exists env q)
        \<and> \<not> isl (popen env [''modprobe'', ''-n'', ''razerkbd''])
        \<and> \<not> isl (popen env [''lsmod''])
        \<and> \<not> isl (popen env [''groups''])
        \<and> (rclient env = None \<or> requests_get env remote_get_url = Inl e) \<longrightarrow>
      (\<exists>rs. fst (troubleshoot get_exception_as_string tr env l) = Report rs
          \<and> map test_name rs = report_names tr env))"
proof (intro conjI impI)
  assume "os_environ env ''XDG_RUNTIME_DIR'' = None"
  then show "daemon_pid_path env l
        = (Inr (path_join (path_join ''/run/user/'' (str_int (os_getuid env)))
                  ''openrazer-daemon.pid''),
           l @ [Environ ''XDG_RUNTIME_DIR'', Getuid])"
    by (simp add: daemon_pid_path_def io_defs)
next
  assume "\<not> path_exists env p"
  then show "check_daemon_running tr env p results l
        = (Inr (results @
             [\<lparr>test_name = tr ''Daemon is running'',
               suggestions =
                 [tr ''Start the daemon from the terminal. Run this command and look for errors:'',
                  ''$ openrazer-daemon -Fv''],
               passed = Some False\<rparr>]),
           l @ [Exists p])"
    by (simp add: check_daemon_running_def daemon_is_running_def io_defs)
next
  assume "\<not> path_exists env ''/sys/firmware/efi''"
  then show "check_secure_boot tr env results l
        = (Inr results, l @ [Exists ''/sys/firmware/efi''])"
    by (simp add: check_secure_boot_def io_defs)
next
  assume "path_exists env ''/sys/firmware/efi''
        \<and> glob_glob env ''/sys/firmware/efi/efivars/SecureBoot*'' = []"
  then show "\<exists>r. check_secure_boot tr env results l
              = (Inr (results @ [r]),
                 l @ [Exists ''/sys/firmware/efi'',
                      Glob ''/sys/firmware/efi/efivars/SecureBoot*''])
          \<and> passed r = None"
    by (simp add: check_secure_boot_def io_defs)
next
  assume "\<not> path_exists env (log_path env)"
  then show "check_log tr env results l
        = (Inr results, l @ [ExpandUser ''~'', Exists (log_path env)])"
    by (simp add: check_log_def log_path_def io_defs Let_def)
next
  assume "rclient env = Some lib \<and> popen env [''lsusb''] = Inl FileNotFoundError"
  then show "check_unsupported tr env (Some True) results l
        = (Inr results, l @ [Popen [''lsusb'']])"
    by (simp add: check_unsupported_def get_filtered_lsusb_list_def io_defs)
next
  assume "rclient env = Some lib \<and> requests_get env remote_get_url = Inl e"
  then show "check_version tr env results l
        = (Inr (results @ [version_unknown tr]), l @ [HttpGet remote_get_url])"
    by (simp add: check_version_offline)
next
  show "passed (version_unknown tr) = None"
    by (simp add: version_unknown_def)
next
  assume "rclient env = None"
  then show "check_dkms tr env un results l = (Inr (None, results), l)"
    and "check_unsupported tr env built results l = (Inr results, l)"
    and "check_version tr env results l = (Inr results, l)"
    by (simp_all add: check_dkms_def check_unsupported_def check_version_def io_defs)
next
  assume a: "sysname (os_uname env) = ''Linux'' \<and> (\<forall>q. \<not> path_exists env q)
        \<and> \<not> isl (popen env [''modprobe'', ''-n'', ''razerkbd''])
        \<and> \<not> isl (popen env [''lsmod''])
        \<and> \<not> isl (popen env [''groups''])
        \<and> (rclient env = None \<or> requests_get env remote_get_url = Inl e)"
  then obtain rs l' where run: "troubleshoot_body tr env l = (Inr (Some rs), l')"
    using nothing_optional_report [of env e tr l] by blast
  with body_returns [OF run]
  show "\<exists>rs. fst (troubleshoot get_exception_as_string tr env l) = Report rs
          \<and> map test_name rs = report_names tr env"
    by (simp add: troubleshoot_def)
qed

theorem guarded_absences_witness:
  "os_environ bare_linux ''XDG_RUNTIME_DIR'' = None
   \<and> daemon_pid_path bare_linux []
        = (Inr ''/run/user/1000/openrazer-daemon.pid'', [Environ ''XDG_RUNTIME_DIR'', Getuid])
   \<and> \<not> path_exists bare_linux ''/run/user/1000/openrazer-daemon.pid''
   \<and> \<not> path_exists bare_linux ''/sys/firmware/efi''
   \<and> check_secure_boot id bare_linux [] [] = (Inr [], [Exists ''/sys/firmware/efi''])
   \<and> path_exists no_secure_boot_variable ''/sys/firmware/efi''
   \<and> glob_glob no_secure_boot_variable ''/sys/firmware/efi/efivars/SecureBoot*'' = []
   \<and> \<not> path_exists bare_linux (log_path bare_linux)
   \<and> check_log id bare_linux [] []
        = (Inr [], [ExpandUser ''~'', Exists ''/home/user/.local/share/openrazer/logs/razer.log''])
   \<and> rclient with_lib = Some sample_lib
   \<and> popen with_lib [''lsusb''] = Inl FileNotFoundError
   \<and> check_unsupported id with_lib (Some True) [] [] = (Inr [], [Popen [''lsusb'']])
   \<and> requests_get with_lib remote_get_url = Inl (OtherException ''ConnectionError'')
   \<and> check_version id with_lib [] [] = (Inr [version_unknown id], [HttpGet remote_get_url])
   \<and> rclient bare_linux = None
   \<and> check_version id bare_linux [] [] = (Inr [], [])
   \<and> sysname (os_uname with_lib) = ''Linux''
   \<and> (\<forall>q. \<not> path_exists with_lib q)
   \<and> \<not> isl (popen with_lib [''modprobe'', ''-n'', ''razerkbd''])
   \<and> \<not> isl (popen with_lib [''lsmod''])
   \<and> \<not> isl (popen with_lib [''groups''])
   \<and> (\<exists>rs. fst (troubleshoot exn_name id with_lib []) = Report rs
          \<and> map test_name rs
               = [''Daemon is installed'', ''Daemon is running'', ''Python library is installed'',
                  ''DKMS sources are installed'',
                  ''DKMS module has been built for this kernel version'',
                  ''DKMS module can be probed'', ''DKMS module is currently loaded'',
                  ''User account has been added to the 'plugdev' group'',
                  ''OpenRazer is the latest version''])"
  using
    guarded_absences [where env = bare_linux and l = "[]" and tr = id and results = "[]"
      and p = "''/run/user/1000/openrazer-daemon.pid''"]
    guarded_absences [where env = no_secure_boot_variable and l = "[]" and tr = id
      and results = "[]"]
    guarded_absences [where env = with_lib and l = "[]" and tr = id and results = "[]"
      and lib = sample_lib and e = "OtherException ''ConnectionError''"
      and get_exception_as_string = exn_name]
    bare_linux_paths with_lib_names
  by (simp add: with_lib_def bare_linux_def no_secure_boot_variable_def)

end
